theory Spec2Isabelle
  imports Main
begin

section \<open>JavaScript values used by the client\<close>

text \<open>
  The client of \<^verbatim>\<open>src/api/client.ts\<close> is modelled function by function. A JavaScript
  \<^verbatim>\<open>number\<close> that holds a retry count or a delay is an integer or \<^verbatim>\<open>NaN\<close> (what
  \<^verbatim>\<open>parseInt\<close> yields); fractions, infinities and the rounding of doubles beyond
  \<open>2^53\<close> are outside the model.
\<close>

datatype js_number = Integer int | NaN

fun js_le :: "int \<Rightarrow> js_number \<Rightarrow> bool" where
  "js_le a (Integer m) = (a \<le> m)"
| "js_le a NaN = False"

fun js_lt :: "int \<Rightarrow> js_number \<Rightarrow> bool" where
  "js_lt a (Integer m) = (a < m)"
| "js_lt a NaN = False"

fun js_mul :: "js_number \<Rightarrow> js_number \<Rightarrow> js_number" where
  "js_mul (Integer a) (Integer b) = Integer (a * b)"
| "js_mul _ _ = NaN"

fun js_add :: "js_number \<Rightarrow> js_number \<Rightarrow> js_number" where
  "js_add (Integer a) (Integer b) = Integer (a + b)"
| "js_add _ _ = NaN"

fun js_sum :: "js_number list \<Rightarrow> js_number" where
  "js_sum [] = Integer 0"
| "js_sum (x # xs) = js_add x (js_sum xs)"

text \<open>Decimal rendering, as a template literal prints a number.\<close>

fun show_nat :: "nat \<Rightarrow> string" where
  "show_nat n =
     (if n < 10 then [''0123456789'' ! n]
      else show_nat (n div 10) @ [''0123456789'' ! (n mod 10)])"

declare show_nat.simps [simp del]

definition show_int :: "int \<Rightarrow> string" where
  "show_int i = (if i < 0 then CHR ''-'' # show_nat (nat (- i)) else show_nat (nat i))"

fun show_number :: "js_number \<Rightarrow> string" where
  "show_number (Integer i) = show_int i"
| "show_number NaN = ''NaN''"

text \<open>
  Parsed JSON. Numbers are integers here; an object is its list of members
  (\<^verbatim>\<open>JSON.parse\<close> yields one member per key).
\<close>

datatype json =
    JNull
  | JBool bool
  | JNum int
  | JStr string
  | JArr "json list"
  | JObj "(string \<times> json) list"

text \<open>Truthiness of a value in a condition (\<^verbatim>\<open>if (body)\<close>, \<^verbatim>\<open>detail ? \<dots>\<close>).\<close>

fun truthy :: "json \<Rightarrow> bool" where
  "truthy JNull = False"
| "truthy (JBool b) = b"
| "truthy (JNum n) = (n \<noteq> 0)"
| "truthy (JStr s) = (s \<noteq> [])"
| "truthy (JArr xs) = True"
| "truthy (JObj fs) = True"

text \<open>
  Reading a property of a value that is neither \<^verbatim>\<open>null\<close> nor \<^verbatim>\<open>undefined\<close>: \<open>None\<close>
  is \<^verbatim>\<open>undefined\<close>. Only the keys \<^verbatim>\<open>detail\<close> and \<^verbatim>\<open>message\<close> are read, which no
  primitive or array has.
\<close>

fun get_prop :: "json \<Rightarrow> string \<Rightarrow> json option" where
  "get_prop (JObj fs) k = map_of fs k"
| "get_prop _ k = None"

fun join_with :: "string \<Rightarrow> string list \<Rightarrow> string" where
  "join_with sep [] = []"
| "join_with sep [x] = x"
| "join_with sep (x # y # ys) = x @ sep @ join_with sep (y # ys)"

text \<open>What a template literal prints for a value (\<^verbatim>\<open>`${detail}`\<close>).\<close>

fun js_string :: "json \<Rightarrow> string" where
  "js_string JNull = ''null''"
| "js_string (JBool b) = (if b then ''true'' else ''false'')"
| "js_string (JNum n) = show_int n"
| "js_string (JStr s) = s"
| "js_string (JArr xs) =
     join_with '','' (map (\<lambda>x. if x = JNull then [] else js_string x) xs)"
| "js_string (JObj fs) = ''[object Object]''"

section \<open>Constants (\<^verbatim>\<open>src/config/constants.ts\<close>)\<close>

definition ELEVENLABS_API_BASE :: string where
  "ELEVENLABS_API_BASE = ''https://api.elevenlabs.io/v1''"

definition ERROR_MESSAGES :: "nat \<rightharpoonup> string" where
  "ERROR_MESSAGES = map_of
     [(400, ''Bad Request - Invalid parameters provided''),
      (401, ''Unauthorized - Invalid or missing API key''),
      (403, ''Forbidden - Insufficient permissions for this operation''),
      (429, ''Rate Limited - Too many requests, please try again later''),
      (500, ''Server Error - ElevenLabs service temporarily unavailable''),
      (502, ''Bad Gateway - ElevenLabs service temporarily unavailable''),
      (503, ''Service Unavailable - ElevenLabs service temporarily unavailable'')]"

section \<open>Data model of the client\<close>

datatype http_method = GET | POST | PUT | DELETE

datatype response_type = json | arraybuffer

text \<open>\<^verbatim>\<open>interface RequestOptions\<close>: every field is optional (\<open>None\<close> is \<^verbatim>\<open>undefined\<close>).\<close>

record RequestOptions =
  "method" :: "http_method option"
  body :: "json option"
  headers :: "(string \<rightharpoonup> string) option"
  responseType :: "response_type option"

text \<open>\<^verbatim>\<open>interface ClientConfig\<close>, the constructor's argument.\<close>

record ClientConfig =
  cfg_apiKey :: string
  cfg_maxRetries :: "js_number option"
  cfg_retryDelayMs :: "js_number option"

text \<open>The private fields of \<^verbatim>\<open>class ElevenLabsClient\<close>.\<close>

record ElevenLabsClient =
  apiKey :: string
  maxRetries :: js_number
  retryDelayMs :: js_number

text \<open>
  A thrown \<^verbatim>\<open>Error\<close>: its message and the \<^verbatim>\<open>status\<close> property that \<^verbatim>\<open>request\<close>
  attaches to the errors it builds from a response (\<open>None\<close>: no such property).
\<close>

record js_error =
  message :: string
  error_status :: "nat option"

text \<open>
  A received response: its status code and the bytes of its body. \<^verbatim>\<open>arrayBuffer()\<close>
  yields the bytes; \<^verbatim>\<open>text()\<close> reads the same bytes as a string (an Isabelle
  \<open>char\<close> is a byte).
\<close>

record response =
  status :: nat
  content :: string

definition ok :: "response \<Rightarrow> bool" where
  "ok r = (200 \<le> status r \<and> status r \<le> 299)"

definition text_of :: "response \<Rightarrow> string" where
  "text_of r = content r"

definition arrayBuffer :: "response \<Rightarrow> string" where
  "arrayBuffer r = content r"

text \<open>
  One \<^verbatim>\<open>await fetch(\<dots>)\<close> together with the reading of the body: the promise
  rejects (a transport fault at any moment of the attempt), or a whole response arrives.
\<close>

datatype fetch_outcome = Rejected js_error | Resolved response

text \<open>The arguments of one \<^verbatim>\<open>fetch\<close> call.\<close>

record fetch_call =
  req_url :: string
  req_method :: http_method
  req_headers :: "string \<rightharpoonup> string"
  req_body :: "string option"

text \<open>
  The runtime's \<^verbatim>\<open>JSON.parse\<close> (\<open>Inl\<close>: the message of the SyntaxError it throws) and
  \<^verbatim>\<open>JSON.stringify\<close> are parameters of the model.
\<close>

record runtime =
  JSON_parse :: "string \<Rightarrow> string + json"
  JSON_stringify :: "json \<Rightarrow> string"

text \<open>
  What a call of \<^verbatim>\<open>request\<close> does to the world, in order: the \<^verbatim>\<open>fetch\<close> calls
  issued, the delays passed to \<^verbatim>\<open>sleep\<close>, the lines written with \<^verbatim>\<open>console.error\<close>.
\<close>

record effects =
  fetched :: "fetch_call list"
  slept :: "js_number list"
  logged :: "string list"

datatype js_value = ArrayBuffer string | Parsed json

text \<open>How one pass through the loop body ends.\<close>

datatype completion = Return js_value | Throw js_error | Continue js_error

text \<open>
  How \<^verbatim>\<open>request\<close> ends: it returns, or it throws from inside the \<^verbatim>\<open>for\<close> loop, or it
  throws at the statement after the loop.
\<close>

datatype throw_site = InLoop | AfterLoop

datatype outcome = Returned js_value | Thrown throw_site js_error

section \<open>\<^verbatim>\<open>ElevenLabsClient\<close>\<close>

definition new_ElevenLabsClient :: "ClientConfig \<Rightarrow> ElevenLabsClient" where
  "new_ElevenLabsClient config =
     \<lparr> apiKey = cfg_apiKey config,
       maxRetries = (case cfg_maxRetries config of None \<Rightarrow> Integer 3 | Some n \<Rightarrow> n),
       retryDelayMs = (case cfg_retryDelayMs config of None \<Rightarrow> Integer 1000 | Some n \<Rightarrow> n) \<rparr>"

definition sleep :: "js_number \<Rightarrow> effects \<Rightarrow> effects" where
  "sleep ms fx = fx\<lparr>slept := slept fx @ [ms]\<rparr>"

definition console_error :: "string \<Rightarrow> effects \<Rightarrow> effects" where
  "console_error line fx = fx\<lparr>logged := logged fx @ [line]\<rparr>"

text \<open>
  \<^verbatim>\<open>getErrorMessage(status, detail)\<close>. Every entry of the table is a non-empty string, so
  \<^verbatim>\<open>||\<close> falls back exactly when the status has no entry.
\<close>

definition getErrorMessage :: "nat \<Rightarrow> json option \<Rightarrow> string" where
  "getErrorMessage st detail =
     (let baseMessage =
        (case ERROR_MESSAGES st of Some m \<Rightarrow> m | None \<Rightarrow> ''HTTP Error '' @ show_nat st)
      in case detail of
           None \<Rightarrow> baseMessage
         | Some d \<Rightarrow> if truthy d then baseMessage @ '': '' @ js_string d else baseMessage)"

text \<open>
  The inner \<^verbatim>\<open>try\<close>/\<^verbatim>\<open>catch\<close> that computes \<^verbatim>\<open>errorDetail\<close>: the body itself when it
  is not JSON, or when it is \<^verbatim>\<open>null\<close> (reading \<^verbatim>\<open>.detail\<close> of \<^verbatim>\<open>null\<close> throws);
  otherwise \<^verbatim>\<open>errorJson.detail?.message\<close>.
\<close>

definition errorDetail_of :: "runtime \<Rightarrow> string \<Rightarrow> json option" where
  "errorDetail_of rt errorBody =
     (case JSON_parse rt errorBody of
        Inl _ \<Rightarrow> Some (JStr errorBody)
      | Inr errorJson \<Rightarrow>
          if errorJson = JNull then Some (JStr errorBody)
          else (case get_prop errorJson ''detail'' of
                  None \<Rightarrow> None
                | Some d \<Rightarrow> if d = JNull then None else get_prop d ''message''))"

text \<open>
  The header object passed to \<^verbatim>\<open>fetch\<close>: the key first, the caller's headers spread
  over it, then the default content type when the body is truthy and the entry
  \<^verbatim>\<open>Content-Type\<close> is missing or empty.
\<close>

definition requestHeaders :: "ElevenLabsClient \<Rightarrow> (string \<rightharpoonup> string) \<Rightarrow> json option \<Rightarrow> (string \<rightharpoonup> string)" where
  "requestHeaders c hdrs bdy =
     (let h = [''xi-api-key'' \<mapsto> apiKey c] ++ hdrs
      in if (case bdy of None \<Rightarrow> False | Some b \<Rightarrow> truthy b)
            \<and> (case h ''Content-Type'' of None \<Rightarrow> True | Some v \<Rightarrow> v = [])
         then h(''Content-Type'' \<mapsto> ''application/json'')
         else h)"

text \<open>
  The two \<^verbatim>\<open>return\<close> statements that end the \<^verbatim>\<open>try\<close> block: the bytes as they are for
  \<^verbatim>\<open>arraybuffer\<close>, otherwise \<^verbatim>\<open>response.json()\<close>, which throws when the body is not JSON.
\<close>

definition decode_body :: "runtime \<Rightarrow> response_type \<Rightarrow> response \<Rightarrow> js_error + js_value" where
  "decode_body rt rtype r =
     (if rtype = arraybuffer then Inr (ArrayBuffer (arrayBuffer r))
      else (case JSON_parse rt (text_of r) of
              Inl msg \<Rightarrow> Inl \<lparr> message = msg, error_status = None \<rparr>
            | Inr v \<Rightarrow> Inr (Parsed v)))"

text \<open>
  The body of the \<^verbatim>\<open>try\<close> block at one attempt; \<open>remote attempt\<close> is what the network
  does at that attempt.
\<close>

definition try_block ::
  "runtime \<Rightarrow> ElevenLabsClient \<Rightarrow> fetch_call \<Rightarrow> response_type \<Rightarrow> (nat \<Rightarrow> fetch_outcome)
     \<Rightarrow> nat \<Rightarrow> effects \<Rightarrow> completion \<times> effects" where
  "try_block rt c call rtype remote attempt fx =
     (let fx1 = fx\<lparr>fetched := fetched fx @ [call]\<rparr> in
      case remote attempt of
        Rejected e \<Rightarrow> (Throw e, fx1)
      | Resolved r \<Rightarrow>
          if \<not> ok r then
            (let errorBody = text_of r;
                 errorDetail = errorDetail_of rt errorBody;
                 error = \<lparr> message = getErrorMessage (status r) errorDetail,
                           error_status = Some (status r) \<rparr>
             in if (status r = 429 \<or> status r \<ge> 500) \<and> js_lt (int attempt) (maxRetries c) then
                  (let delay = js_mul (Integer (2 ^ attempt)) (retryDelayMs c);
                       fx2 = console_error (''Request failed with '' @ show_nat (status r)
                               @ '', retrying in '' @ show_number delay @ ''ms...'') fx1;
                       fx3 = sleep delay fx2
                   in (Continue error, fx3))
                else (Throw error, fx1))
          else (case decode_body rt rtype r of
                  Inl e \<Rightarrow> (Throw e, fx1)
                | Inr v \<Rightarrow> (Return v, fx1)))"

text \<open>The \<^verbatim>\<open>catch (error)\<close> block; \<^verbatim>\<open>(error as any).status\<close> is tested for truthiness.\<close>

definition catch_block ::
  "ElevenLabsClient \<Rightarrow> nat \<Rightarrow> js_error \<Rightarrow> effects \<Rightarrow> completion \<times> effects" where
  "catch_block c attempt error fx =
     (if (case error_status error of None \<Rightarrow> False | Some s \<Rightarrow> s \<noteq> 0) then (Throw error, fx)
      else if js_lt (int attempt) (maxRetries c) then
        (let delay = js_mul (Integer (2 ^ attempt)) (retryDelayMs c);
             fx1 = console_error (''Network error, retrying in '' @ show_number delay
                     @ ''ms... '' @ message error) fx;
             fx2 = sleep delay fx1
         in (Continue error, fx2))
      else
        (Throw \<lparr> message = ''Network error after ''
                    @ show_number (js_add (maxRetries c) (Integer 1))
                    @ '' attempts: '' @ message error,
                 error_status = None \<rparr>, fx))"

text \<open>One pass through the loop body: the \<^verbatim>\<open>try\<close> block, and the handler for what it throws.\<close>

definition loop_body ::
  "runtime \<Rightarrow> ElevenLabsClient \<Rightarrow> fetch_call \<Rightarrow> response_type \<Rightarrow> (nat \<Rightarrow> fetch_outcome)
     \<Rightarrow> nat \<Rightarrow> effects \<Rightarrow> completion \<times> effects" where
  "loop_body rt c call rtype remote attempt fx =
     (case try_block rt c call rtype remote attempt fx of
        (Throw error, fx') \<Rightarrow> catch_block c attempt error fx'
      | other \<Rightarrow> other)"

text \<open>
  The \<^verbatim>\<open>for (let attempt = 0; attempt <= this.maxRetries; attempt++)\<close> loop from a given
  attempt on, and the \<^verbatim>\<open>throw\<close> that follows it.
\<close>

function attempt_loop ::
  "runtime \<Rightarrow> ElevenLabsClient \<Rightarrow> fetch_call \<Rightarrow> response_type \<Rightarrow> (nat \<Rightarrow> fetch_outcome)
     \<Rightarrow> nat \<Rightarrow> js_error option \<Rightarrow> effects \<Rightarrow> outcome \<times> effects" where
  "attempt_loop rt c call rtype remote attempt lastError fx =
     (if js_le (int attempt) (maxRetries c) then
        (case loop_body rt c call rtype remote attempt fx of
           (Return v, fx') \<Rightarrow> (Returned v, fx')
         | (Throw e, fx') \<Rightarrow> (Thrown InLoop e, fx')
         | (Continue e, fx') \<Rightarrow> attempt_loop rt c call rtype remote (Suc attempt) (Some e) fx')
      else
        (Thrown AfterLoop
           (case lastError of
              Some e \<Rightarrow> e
            | None \<Rightarrow> \<lparr> message = ''Request failed after all retries'', error_status = None \<rparr>),
         fx))"
  by pat_completeness auto
termination
  by (relation "measure (\<lambda>(rt, c, call, rtype, remote, attempt, lastError, fx).
        case maxRetries c of Integer m \<Rightarrow> nat (m + 1 - int attempt) | NaN \<Rightarrow> 0)")
     (auto split: js_number.splits)

declare attempt_loop.simps [simp del]

definition no_effects :: effects where
  "no_effects = \<lparr> fetched = [], slept = [], logged = [] \<rparr>"

text \<open>
  \<^verbatim>\<open>request(endpoint, options)\<close>. Every attempt passes the same arguments to
  \<^verbatim>\<open>fetch\<close>: the url, the method, the header object, and the serialised body when the
  body is truthy.
\<close>

definition request ::
  "runtime \<Rightarrow> ElevenLabsClient \<Rightarrow> string \<Rightarrow> RequestOptions \<Rightarrow> (nat \<Rightarrow> fetch_outcome)
     \<Rightarrow> outcome \<times> effects" where
  "request rt c endpoint options remote =
     (let meth = (case method options of None \<Rightarrow> GET | Some m \<Rightarrow> m);
          bdy = body options;
          hdrs = (case headers options of None \<Rightarrow> Map.empty | Some h \<Rightarrow> h);
          rtype = (case responseType options of None \<Rightarrow> json | Some t \<Rightarrow> t);
          url = ELEVENLABS_API_BASE @ endpoint;
          call = \<lparr> req_url = url, req_method = meth,
                   req_headers = requestHeaders c hdrs bdy,
                   req_body = (case bdy of
                                 None \<Rightarrow> None
                               | Some b \<Rightarrow> if truthy b then Some (JSON_stringify rt b) else None) \<rparr>
      in attempt_loop rt c call rtype remote 0 None no_effects)"

text \<open>The helpers \<^verbatim>\<open>get\<close>, \<^verbatim>\<open>post\<close> and \<^verbatim>\<open>generateAudio\<close> fix the method and pass the rest on.\<close>

definition get ::
  "runtime \<Rightarrow> ElevenLabsClient \<Rightarrow> string \<Rightarrow> response_type option \<Rightarrow> (nat \<Rightarrow> fetch_outcome)
     \<Rightarrow> outcome \<times> effects" where
  "get rt c endpoint rtype remote =
     request rt c endpoint
       \<lparr> method = Some GET, body = None, headers = None, responseType = rtype \<rparr> remote"

definition post ::
  "runtime \<Rightarrow> ElevenLabsClient \<Rightarrow> string \<Rightarrow> json option \<Rightarrow> response_type option
     \<Rightarrow> (nat \<Rightarrow> fetch_outcome) \<Rightarrow> outcome \<times> effects" where
  "post rt c endpoint bdy rtype remote =
     request rt c endpoint
       \<lparr> method = Some POST, body = bdy, headers = None, responseType = rtype \<rparr> remote"

definition generateAudio ::
  "runtime \<Rightarrow> ElevenLabsClient \<Rightarrow> string \<Rightarrow> json option \<Rightarrow> (nat \<Rightarrow> fetch_outcome)
     \<Rightarrow> outcome \<times> effects" where
  "generateAudio rt c endpoint bdy remote =
     request rt c endpoint
       \<lparr> method = Some POST, body = bdy, headers = None, responseType = Some arraybuffer \<rparr> remote"

section \<open>The process-wide instance\<close>

text \<open>
  \<^verbatim>\<open>parseInt(s, 10)\<close>: leading white space is skipped (the ASCII white space here), a
  sign is read, then the longest run of decimal digits; \<^verbatim>\<open>NaN\<close> when there is no digit.
\<close>

definition is_space :: "char \<Rightarrow> bool" where
  "is_space ch = (ch \<in> set [CHR '' '', CHR 0x09, CHR 0x0A, CHR 0x0B, CHR 0x0C, CHR 0x0D])"

definition is_digit :: "char \<Rightarrow> bool" where
  "is_digit ch = (ch \<in> set ''0123456789'')"

definition digit_val :: "char \<Rightarrow> int" where
  "digit_val ch = int (of_char ch) - 48"

definition digits_val :: "string \<Rightarrow> int" where
  "digits_val ds = foldl (\<lambda>acc ch. 10 * acc + digit_val ch) 0 ds"

definition parseInt :: "string \<Rightarrow> js_number" where
  "parseInt s =
     (let s1 = dropWhile is_space s;
          (sign, s2) = (case s1 of
                          [] \<Rightarrow> (1, s1)
                        | ch # rest \<Rightarrow>
                            if ch = CHR ''-'' then (- 1, rest)
                            else if ch = CHR ''+'' then (1, rest)
                            else (1, s1));
          ds = takeWhile is_digit s2
      in if ds = [] then NaN else Integer (sign * digits_val ds))"

text \<open>\<^verbatim>\<open>process.env\<close>: a variable is unset (\<open>None\<close>) or holds a string.\<close>

type_synonym env = "string \<rightharpoonup> string"

text \<open>\<^verbatim>\<open>process.env.X || dflt\<close>: the default when the variable is unset or empty.\<close>

definition env_or :: "env \<Rightarrow> string \<Rightarrow> string \<Rightarrow> string" where
  "env_or e name dflt = (case e name of None \<Rightarrow> dflt | Some v \<Rightarrow> if v = [] then dflt else v)"

text \<open>
  The module's state: the objects that \<^verbatim>\<open>new ElevenLabsClient\<close> has allocated (a
  reference is an index into the list) and the variable \<^verbatim>\<open>clientInstance\<close>, \<^verbatim>\<open>null\<close> or
  a reference.
\<close>

record module_state =
  heap :: "ElevenLabsClient list"
  clientInstance :: "nat option"

definition initial_state :: module_state where
  "initial_state = \<lparr> heap = [], clientInstance = None \<rparr>"

definition missing_key_error :: js_error where
  "missing_key_error =
     \<lparr> message = ''ELEVENLABS_API_KEY environment variable is required'', error_status = None \<rparr>"

definition getClient :: "env \<Rightarrow> module_state \<Rightarrow> (js_error + nat) \<times> module_state" where
  "getClient e st =
     (case clientInstance st of
        Some ref \<Rightarrow> (Inr ref, st)
      | None \<Rightarrow>
          (case e ''ELEVENLABS_API_KEY'' of
             None \<Rightarrow> (Inl missing_key_error, st)
           | Some key \<Rightarrow>
               if key = [] then (Inl missing_key_error, st)
               else
                 (let obj = new_ElevenLabsClient
                        \<lparr> cfg_apiKey = key,
                          cfg_maxRetries = Some (parseInt (env_or e ''MAX_RETRIES'' ''3'')),
                          cfg_retryDelayMs = Some (parseInt (env_or e ''RETRY_DELAY_MS'' ''1000'')) \<rparr>;
                      ref = length (heap st)
                  in (Inr ref, st\<lparr>heap := heap st @ [obj], clientInstance := Some ref\<rparr>))))"

definition resetClient :: "module_state \<Rightarrow> module_state" where
  "resetClient st = st\<lparr>clientInstance := None\<rparr>"

text \<open>
  \<^verbatim>\<open>getClient\<close> has no \<^verbatim>\<open>await\<close>: calls made by concurrent tasks run one after the other,
  each to completion. A series of calls, each seeing the environment of its moment:
\<close>

fun getClient_calls :: "env list \<Rightarrow> module_state \<Rightarrow> (js_error + nat) list \<times> module_state" where
  "getClient_calls [] st = ([], st)"
| "getClient_calls (e # es) st =
     (let (r, st1) = getClient e st;
          (rs, st2) = getClient_calls es st1
      in (r # rs, st2))"

section \<open>Sample inputs\<close>

text \<open>
  A runtime whose \<^verbatim>\<open>JSON.parse\<close> knows two documents and rejects every other text, a
  client with the default configuration, and a call without options.
\<close>

definition sample_runtime :: runtime where
  "sample_runtime =
     \<lparr> JSON_parse = (\<lambda>s. if s = ''{}'' then Inr (JObj [])
                          else if s = ''null'' then Inr JNull
                          else Inl ''Unexpected token in JSON at position 0''),
       JSON_stringify = (\<lambda>j. ''{}'') \<rparr>"

definition sample_client :: ElevenLabsClient where
  "sample_client =
     new_ElevenLabsClient \<lparr> cfg_apiKey = ''secret'', cfg_maxRetries = None, cfg_retryDelayMs = None \<rparr>"

definition no_options :: RequestOptions where
  "no_options = \<lparr> method = None, body = None, headers = None, responseType = None \<rparr>"

definition respond :: "nat \<Rightarrow> string \<Rightarrow> fetch_outcome" where
  "respond st bytes = Resolved \<lparr> status = st, content = bytes \<rparr>"

text \<open>Networks: the same answer at every attempt, or one answer for the first \<open>k\<close> attempts
  and another from then on.\<close>

definition always :: "fetch_outcome \<Rightarrow> nat \<Rightarrow> fetch_outcome" where
  "always x attempt = x"

definition first_then :: "nat \<Rightarrow> fetch_outcome \<Rightarrow> fetch_outcome \<Rightarrow> nat \<Rightarrow> fetch_outcome" where
  "first_then k x y attempt = (if attempt < k then x else y)"

text \<open>A network that answers 429 once, then 200 with an HTML page once, then 200 with
  a JSON document.\<close>

definition rate_limit_then_html :: "nat \<Rightarrow> fetch_outcome" where
  "rate_limit_then_html attempt =
     (if attempt = 0 then respond 429 ''null''
      else if attempt = 1 then respond 200 ''<html>''
      else respond 200 ''{}'')"

section \<open>One attempt\<close>

lemma loop_body_fetched:
  "fetched (snd (loop_body rt c call rtype remote a fx)) = fetched fx @ [call]"
  by (auto simp: loop_body_def try_block_def catch_block_def Let_def sleep_def console_error_def
           split: fetch_outcome.splits sum.splits)

lemma loop_body_retry_status:
  assumes "remote a = Resolved r" "status r = 429 \<or> 500 \<le> status r"
    and "js_lt (int a) (maxRetries c)"
  shows "loop_body rt c call rtype remote a fx =
           (Continue \<lparr> message = getErrorMessage (status r) (errorDetail_of rt (text_of r)),
                        error_status = Some (status r) \<rparr>,
            fx\<lparr> fetched := fetched fx @ [call],
              slept := slept fx @ [js_mul (Integer (2 ^ a)) (retryDelayMs c)],
              logged := logged fx @ [''Request failed with '' @ show_nat (status r)
                  @ '', retrying in '' @ show_number (js_mul (Integer (2 ^ a)) (retryDelayMs c))
                  @ ''ms...''] \<rparr>)"
  using assms
  by (auto simp: loop_body_def try_block_def ok_def Let_def sleep_def console_error_def)

lemma loop_body_success:
  assumes "remote a = Resolved r" "ok r" "decode_body rt rtype r = Inr v"
  shows "loop_body rt c call rtype remote a fx = (Return v, fx\<lparr>fetched := fetched fx @ [call]\<rparr>)"
  using assms by (simp add: loop_body_def try_block_def Let_def)


lemma loop_body_Continue_lt:
  "loop_body rt c call rtype remote a fx = (Continue e, fx') \<Longrightarrow> js_lt (int a) (maxRetries c)"
  by (auto simp: loop_body_def try_block_def catch_block_def Let_def
           split: fetch_outcome.splits if_splits sum.splits completion.splits prod.splits)

text \<open>A 2xx body that does not decode is handed to the \<^verbatim>\<open>catch\<close> block like any other
  error thrown in the \<^verbatim>\<open>try\<close> block.\<close>

lemma loop_body_decode_failure:
  assumes "remote a = Resolved r" "ok r" "decode_body rt rtype r = Inl e"
  shows "loop_body rt c call rtype remote a fx =
           catch_block c a e (fx\<lparr>fetched := fetched fx @ [call]\<rparr>)"
  using assms by (simp add: loop_body_def try_block_def Let_def)

section \<open>The loop\<close>

lemma attempt_loop_Return:
  "js_le (int a) (maxRetries c) \<Longrightarrow> loop_body rt c call rtype remote a fx = (Return v, fx') \<Longrightarrow>
     attempt_loop rt c call rtype remote a le fx = (Returned v, fx')"
  by (subst attempt_loop.simps) simp


lemma retry_prefix:
  assumes "maxRetries c = Integer m"
    and "\<forall>i. a \<le> i \<and> i < a + k \<longrightarrow> (\<exists>r. remote i = Resolved r \<and> (status r = 429 \<or> 500 \<le> status r))"
    and "int (a + k) \<le> m"
  shows "\<exists>le' lg. (k = 0 \<longrightarrow> le' = le) \<and> length lg = k \<and>
           attempt_loop rt c call rtype remote a le fx =
           attempt_loop rt c call rtype remote (a + k) le'
             (fx\<lparr> fetched := fetched fx @ replicate k call,
               slept := slept fx @ map (\<lambda>i. js_mul (Integer (2 ^ i)) (retryDelayMs c)) [a..<a + k],
               logged := logged fx @ lg \<rparr>)"
  using assms(2,3)
proof (induction k arbitrary: a le fx)
  case 0
  then show ?case by simp
next
  case (Suc k)
  from Suc.prems obtain r where r: "remote a = Resolved r" "status r = 429 \<or> 500 \<le> status r"
    by force
  have lt: "js_lt (int a) (maxRetries c)" and le: "js_le (int a) (maxRetries c)"
    using Suc.prems(2) assms(1) by auto
  define fx1 where "fx1 = (\<lambda>line. fx\<lparr> fetched := fetched fx @ [call],
              slept := slept fx @ [js_mul (Integer (2 ^ a)) (retryDelayMs c)],
              logged := logged fx @ [line] \<rparr>)"
  obtain e line where body: "loop_body rt c call rtype remote a fx = (Continue e, fx1 line)"
    unfolding fx1_def
    using loop_body_retry_status [where remote = remote and a = a, OF r lt, of rt call rtype fx]
    by blast
  have step: "attempt_loop rt c call rtype remote a le fx =
              attempt_loop rt c call rtype remote (Suc a) (Some e) (fx1 line)"
    by (subst attempt_loop.simps) (simp add: le body)
  have "\<forall>i. Suc a \<le> i \<and> i < Suc a + k \<longrightarrow>
          (\<exists>r. remote i = Resolved r \<and> (status r = 429 \<or> 500 \<le> status r))"
    using Suc.prems(1) by auto
  moreover have "int (Suc a + k) \<le> m" using Suc.prems(2) by simp
  ultimately obtain le' lg where ih: "length lg = k"
    "attempt_loop rt c call rtype remote (Suc a) (Some e) (fx1 line) =
     attempt_loop rt c call rtype remote (Suc a + k) le'
       ((fx1 line)\<lparr> fetched := fetched (fx1 line) @ replicate k call,
         slept := slept (fx1 line) @ map (\<lambda>i. js_mul (Integer (2 ^ i)) (retryDelayMs c)) [Suc a..<Suc a + k],
         logged := logged (fx1 line) @ lg \<rparr>)"
    using Suc.IH [of "Suc a" "Some e" "fx1 line"] by blast
  have upt: "[a..<a + Suc k] = a # [Suc a..<Suc a + k]"
    by (simp add: upt_conv_Cons)
  show ?case
    apply (rule exI [of _ le'], rule exI [of _ "line # lg"])
    apply (simp only: step ih(2) upt)
    apply (simp add: ih(1) fx1_def replicate_app_Cons_same)
    done
qed

lemma attempt_loop_not_after:
  "maxRetries c = Integer m \<Longrightarrow> int a \<le> m \<Longrightarrow>
     attempt_loop rt c call rtype remote a le fx \<noteq> (Thrown AfterLoop e, fx')"
proof (induction rt c call rtype remote a le fx rule: attempt_loop.induct)
  case (1 rt c call rtype remote attempt lastError fx)
  have le: "js_le (int attempt) (maxRetries c)" using "1.prems" by simp
  obtain cm fx1 where body: "loop_body rt c call rtype remote attempt fx = (cm, fx1)"
    by (cases "loop_body rt c call rtype remote attempt fx")
  show ?case
  proof (cases cm)
    case (Return v)
    then show ?thesis by (subst attempt_loop.simps) (simp add: le body)
  next
    case (Throw x)
    then show ?thesis by (subst attempt_loop.simps) (simp add: le body)
  next
    case (Continue x)
    with body have "js_lt (int attempt) (maxRetries c)"
      by (auto dest: loop_body_Continue_lt)
    then have "int (Suc attempt) \<le> m" using "1.prems" by simp
    with "1.IH" [OF le body [symmetric] Continue "1.prems"(1)]
    have "attempt_loop rt c call rtype remote (Suc attempt) (Some x) fx1 \<noteq> (Thrown AfterLoop e, fx')"
      by simp
    then show ?thesis by (subst attempt_loop.simps) (simp add: le body Continue)
  qed
qed

lemma attempt_loop_fetched_subset:
  "set (fetched (snd (attempt_loop rt c call rtype remote a le fx))) \<subseteq> insert call (set (fetched fx))"
proof (induction rt c call rtype remote a le fx rule: attempt_loop.induct)
  case (1 rt c call rtype remote attempt lastError fx)
  show ?case
  proof (cases "js_le (int attempt) (maxRetries c)")
    case False
    then show ?thesis by (subst attempt_loop.simps) auto
  next
    case le: True
    obtain cm fx1 where body: "loop_body rt c call rtype remote attempt fx = (cm, fx1)"
      by (cases "loop_body rt c call rtype remote attempt fx")
    have f1: "fetched fx1 = fetched fx @ [call]"
      using loop_body_fetched [of rt c call rtype remote attempt fx] body by simp
    show ?thesis
    proof (cases cm)
      case (Return v)
      then show ?thesis by (subst attempt_loop.simps) (auto simp: le body f1)
    next
      case (Throw x)
      then show ?thesis by (subst attempt_loop.simps) (auto simp: le body f1)
    next
      case (Continue x)
      from "1.IH" [OF le body [symmetric] Continue]
      have "set (fetched (snd (attempt_loop rt c call rtype remote (Suc attempt) (Some x) fx1)))
              \<subseteq> insert call (set (fetched fx1))" .
      then show ?thesis by (subst attempt_loop.simps) (auto simp: le body f1 Continue)
    qed
  qed
qed

lemma attempt_loop_received_bytes:
  assumes "attempt_loop rt c call arraybuffer remote a le fx = (res, fx')"
    and "length (fetched fx) = a" "a \<le> i" "i < length (fetched fx')"
    and "remote i = Resolved r" "ok r"
  shows "res = Returned (ArrayBuffer (content r)) \<and> length (fetched fx') = Suc i"
  using assms
proof (induction rt c call "arraybuffer" remote a le fx rule: attempt_loop.induct)
  case (1 rt c call remote attempt lastError fx)
  show ?case
  proof (cases "js_le (int attempt) (maxRetries c)")
    case False
    with "1.prems" show ?thesis by (subst (asm) attempt_loop.simps) auto
  next
    case le: True
    obtain cm fx1 where body: "loop_body rt c call arraybuffer remote attempt fx = (cm, fx1)"
      by (cases "loop_body rt c call arraybuffer remote attempt fx")
    have f1: "fetched fx1 = fetched fx @ [call]"
      using loop_body_fetched [of rt c call arraybuffer remote attempt fx] body by simp
    show ?thesis
    proof (cases "i = attempt")
      case True
      have "loop_body rt c call arraybuffer remote attempt fx =
              (Return (ArrayBuffer (content r)), fx\<lparr>fetched := fetched fx @ [call]\<rparr>)"
        using "1.prems" True
        by (intro loop_body_success) (auto simp: decode_body_def arrayBuffer_def)
      with "1.prems"(1) le have "res = Returned (ArrayBuffer (content r))"
        and "fx' = fx\<lparr>fetched := fetched fx @ [call]\<rparr>"
        by (subst (asm) attempt_loop.simps; simp)+
      with "1.prems" True show ?thesis by simp
    next
      case False
      with "1.prems" have lt: "Suc attempt \<le> i" by simp
      show ?thesis
      proof (cases cm)
        case (Return v)
        with "1.prems"(1) le body have "fx' = fx1" by (subst (asm) attempt_loop.simps) simp
        with f1 "1.prems" lt show ?thesis by simp
      next
        case (Throw x)
        with "1.prems"(1) le body have "fx' = fx1" by (subst (asm) attempt_loop.simps) simp
        with f1 "1.prems" lt show ?thesis by simp
      next
        case (Continue x)
        with "1.prems"(1) le body
        have run: "attempt_loop rt c call arraybuffer remote (Suc attempt) (Some x) fx1 = (res, fx')"
          by (subst (asm) attempt_loop.simps) simp
        show ?thesis
          using "1.hyps" [OF le body [symmetric] Continue run _ lt] "1.prems" f1 by simp
      qed
    qed
  qed
qed

lemma request_fetched:
  assumes "q \<in> set (fetched (snd (request rt c endpoint options remote)))"
  shows "req_headers q =
           requestHeaders c (case headers options of None \<Rightarrow> Map.empty | Some h \<Rightarrow> h) (body options)"
proof -
  obtain call where req: "request rt c endpoint options remote =
      attempt_loop rt c call (case responseType options of None \<Rightarrow> json | Some t \<Rightarrow> t)
        remote 0 None no_effects"
    and call: "req_headers call =
      requestHeaders c (case headers options of None \<Rightarrow> Map.empty | Some h \<Rightarrow> h) (body options)"
    by (simp add: request_def Let_def)
  from assms attempt_loop_fetched_subset [of rt c call _ remote 0 None no_effects]
  have "q = call" by (auto simp: req no_effects_def)
  with call show ?thesis by simp
qed

section \<open>Arithmetic of the delays\<close>

lemma js_sum_Integer: "js_sum (map (\<lambda>i. Integer (f i)) xs) = Integer (sum_list (map f xs))"
  by (induction xs) simp_all

lemma sum_list_upt_lessThan: "sum_list (map f [0..<k]) = (\<Sum>i<k. (f i :: int))"
  by (simp add: interv_sum_list_conv_sum_set_nat lessThan_atLeast0)

lemma upt_2: "[0..<2] = [0, 1]"
  by (simp add: numeral_2_eq_2)


lemma lessThan_2: "{..<2::nat} = {0, 1}"
  by (auto simp: numeral_2_eq_2)

section \<open>Evaluating the sample inputs\<close>

lemma sample_client_fields:
  "apiKey sample_client = ''secret''" "maxRetries sample_client = Integer 3"
  "retryDelayMs sample_client = Integer 1000"
  by (simp_all add: sample_client_def new_ElevenLabsClient_def)

lemmas run_simps = request_def Let_def attempt_loop.simps loop_body_def try_block_def
  catch_block_def decode_body_def sleep_def console_error_def no_effects_def ok_def text_of_def
  arrayBuffer_def sample_client_fields sample_runtime_def no_options_def respond_def always_def
  first_then_def

lemma getClient_calls_same:
  "clientInstance st = Some ref \<Longrightarrow> getClient_calls es st = (replicate (length es) (Inr ref), st)"
  by (induction es) (simp_all add: getClient_def)

section \<open>The retry loop of \<^verbatim>\<open>request\<close>\<close>

text \<open>
  \<^bold>\<open>C1\<close> says that a 2xx response whose body is not JSON is never retried: the failure
  would reach the caller at once, as an error of its own kind, with no further \<^verbatim>\<open>fetch\<close> and
  no sleep. The code does otherwise. \<^verbatim>\<open>response.json()\<close> throws inside the \<^verbatim>\<open>try\<close> block,
  the error has no \<^verbatim>\<open>status\<close>, and the \<^verbatim>\<open>catch\<close> block takes the branch its comment calls
  \<^verbatim>\<open>// Network error - retry\<close>. With the default configuration and a server that answers
  \<^verbatim>\<open>200\<close> with an HTML page every time, \<^verbatim>\<open>request\<close> calls \<^verbatim>\<open>fetch\<close> four times, sleeps
  1000, 2000 and 4000 ms, and throws an error that reads as a network error.
\<close>

theorem decode_failure_is_retried:
  "fst (request sample_runtime sample_client ''/voices'' no_options
          (always (respond 200 ''<html>'')))
     = Thrown InLoop
         \<lparr> message = ''Network error after 4 attempts: Unexpected token in JSON at position 0'',
           error_status = None \<rparr>
   \<and> length (fetched (snd (request sample_runtime sample_client ''/voices'' no_options
          (always (respond 200 ''<html>''))))) = 4
   \<and> slept (snd (request sample_runtime sample_client ''/voices'' no_options
          (always (respond 200 ''<html>''))))
     = [Integer 1000, Integer 2000, Integer 4000]"
  by (simp add: run_simps show_int_def show_nat.simps)

text \<open>
  \<^bold>\<open>C2\<close> says that a 429 or a status from 500 on at each of the first \<open>k\<close> attempts and a
  2xx response at attempt \<open>k\<close> give exactly \<open>k + 1\<close> calls of \<^verbatim>\<open>fetch\<close>, the decoded payload,
  and a slept time of \<open>\<Sum>i<k. 2^i * retryDelayMs\<close>. It fails when the 2xx body does not
  decode. With the default configuration (three retries, 1000 ms) and \<open>k = 1\<close>: the first
  attempt is answered 429, the second 200 with an HTML page; \<^verbatim>\<open>request\<close> does not stop
  there with two calls and 1000 ms slept, it sleeps 2000 ms more and calls \<^verbatim>\<open>fetch\<close> a third
  time, and what it returns is the payload of that third response.
\<close>

theorem undecodable_success_counterexample:
  "maxRetries sample_client = Integer 3
   \<and> retryDelayMs sample_client = Integer 1000
   \<and> rate_limit_then_html 0 = respond 429 ''null''
   \<and> rate_limit_then_html 1 = respond 200 ''<html>''
   \<and> ok \<lparr> status = 200, content = ''<html>'' \<rparr>
   \<and> length (fetched (snd (request sample_runtime sample_client ''/voices'' no_options
          rate_limit_then_html))) = 3
   \<and> slept (snd (request sample_runtime sample_client ''/voices'' no_options
          rate_limit_then_html)) = [Integer 1000, Integer 2000]
   \<and> fst (request sample_runtime sample_client ''/voices'' no_options rate_limit_then_html)
       = Returned (Parsed (JObj []))"
  by (simp add: run_simps rate_limit_then_html_def)

text \<open>
  \<^bold>\<open>C2\<close>, as the code has it: let \<open>maxRetries\<close> be the integer \<open>m\<close> and the base delay the
  integer \<open>d\<close>. If the first \<open>k \<le> m\<close> attempts are each answered with status 429 or a
  status from 500 on, and attempt \<open>k\<close> is answered with a 2xx response whose body decodes
  (any body when the response type is \<^verbatim>\<open>arraybuffer\<close>; otherwise a body that \<^verbatim>\<open>JSON.parse\<close>
  accepts, with value \<open>j\<close>), then \<^verbatim>\<open>request\<close> returns the payload of that response (its
  bytes as they are, or \<open>j\<close>) after exactly \<open>k + 1\<close> calls of \<^verbatim>\<open>fetch\<close>, and the delays
  passed to \<^verbatim>\<open>sleep\<close> are \<open>2^0 * d, \<dots>, 2^(k-1) * d\<close>, with sum \<open>\<Sum>i<k. 2^i * d\<close>. For
  \<open>k = 0\<close> that is one call and no sleep.
\<close>

theorem retry_then_success:
  assumes "maxRetries c = Integer m" and "retryDelayMs c = Integer d"
    and "int k \<le> m"
    and "\<forall>i<k. \<exists>r. remote i = Resolved r \<and> (status r = 429 \<or> 500 \<le> status r)"
    and "remote k = Resolved r" and "ok r"
    and "responseType options = Some arraybuffer \<and> v = ArrayBuffer (content r)
         \<or> responseType options \<noteq> Some arraybuffer
             \<and> JSON_parse rt (content r) = Inr j \<and> v = Parsed j"
  shows "case request rt c endpoint options remote of
           (res, fx) \<Rightarrow>
             res = Returned v \<and> length (fetched fx) = k + 1 \<and>
             slept fx = map (\<lambda>i. Integer (2 ^ i * d)) [0..<k] \<and>
             js_sum (slept fx) = Integer (\<Sum>i<k. 2 ^ i * d)"
proof -
  define rtype where "rtype = (case responseType options of None \<Rightarrow> json | Some t \<Rightarrow> t)"
  obtain call where req: "request rt c endpoint options remote =
      attempt_loop rt c call rtype remote 0 None no_effects"
    by (simp add: request_def Let_def rtype_def)
  have dec: "decode_body rt rtype r = Inr v"
  proof (cases "responseType options = Some arraybuffer")
    case True
    with assms(7) show ?thesis
      by (simp add: decode_body_def rtype_def arrayBuffer_def)
  next
    case False
    then have "rtype \<noteq> arraybuffer"
      by (cases "responseType options") (simp_all add: rtype_def)
    with False assms(7) show ?thesis
      by (simp add: decode_body_def text_of_def)
  qed
  have pre: "\<forall>i. 0 \<le> i \<and> i < 0 + k \<longrightarrow>
               (\<exists>r. remote i = Resolved r \<and> (status r = 429 \<or> 500 \<le> status r))"
    using assms(4) by simp
  from retry_prefix [where rt = rt and call = call and rtype = rtype and le = None
      and fx = no_effects, OF assms(1) pre] assms(3)
  obtain le' lg where run:
    "attempt_loop rt c call rtype remote 0 None no_effects =
     attempt_loop rt c call rtype remote k le'
       (no_effects\<lparr> fetched := fetched no_effects @ replicate k call,
          slept := slept no_effects @ map (\<lambda>i. js_mul (Integer (2 ^ i)) (retryDelayMs c)) [0..<0 + k],
          logged := logged no_effects @ lg \<rparr>)" (is "_ = attempt_loop _ _ _ _ _ _ _ ?fx")
    by auto
  have le: "js_le (int k) (maxRetries c)" using assms(1,3) by simp
  have body: "loop_body rt c call rtype remote k ?fx = (Return v, ?fx\<lparr>fetched := fetched ?fx @ [call]\<rparr>)"
    using assms(5,6) dec by (intro loop_body_success) simp_all
  have fin: "attempt_loop rt c call rtype remote k le' ?fx = (Returned v, ?fx\<lparr>fetched := fetched ?fx @ [call]\<rparr>)"
    by (rule attempt_loop_Return [OF le body])
  have sl: "map (\<lambda>i. js_mul (Integer (2 ^ i)) (retryDelayMs c)) [0..<k] = map (\<lambda>i. Integer (2 ^ i * d)) [0..<k]"
    by (simp add: assms(2))
  show ?thesis
    unfolding req run fin
    by (simp add: no_effects_def sl js_sum_Integer sum_list_upt_lessThan)
qed

theorem retry_then_success_witness:
  "case request sample_runtime sample_client ''/voices'' no_options
          (first_then 2 (respond 429 ''null'') (respond 200 ''{}'')) of
     (res, fx) \<Rightarrow>
       res = Returned (Parsed (JObj [])) \<and> length (fetched fx) = 3 \<and>
       slept fx = [Integer 1000, Integer 2000] \<and>
       js_sum (slept fx) = Integer 3000"
  using retry_then_success [where c = sample_client and m = 3 and d = 1000 and k = 2
      and remote = "first_then 2 (respond 429 ''null'') (respond 200 ''{}'')"
      and r = "\<lparr> status = 200, content = ''{}'' \<rparr>" and rt = sample_runtime
      and options = no_options and v = "Parsed (JObj [])" and j = "JObj []"
      and endpoint = "''/voices''"]
  by (simp add: sample_client_fields first_then_def respond_def ok_def
        sample_runtime_def no_options_def split_beta upt_2 lessThan_2)





text \<open>
  \<^bold>\<open>C10\<close>: let \<open>maxRetries\<close> be the integer \<open>m \<ge> 0\<close> (a retry count is a whole
  number: the default 3, or what \<^verbatim>\<open>parseInt\<close> reads). Every call of \<^verbatim>\<open>request\<close> ends
  (the loop is a total function), and it ends by returning a value or by throwing from
  inside the loop, never at the \<^verbatim>\<open>throw\<close> after the loop; at the last attempt \<open>m\<close> the
  loop body never ends with \<^verbatim>\<open>continue\<close>.
\<close>

theorem fallback_throw_unreachable:
  assumes "maxRetries c = Integer m" and "0 \<le> m"
  shows "((\<exists>v fx. request rt c endpoint options remote = (Returned v, fx))
          \<or> (\<exists>e fx. request rt c endpoint options remote = (Thrown InLoop e, fx)))
       \<and> (\<forall>call rtype fx e fx'.
            loop_body rt c call rtype remote (nat m) fx \<noteq> (Continue e, fx'))"
proof -
  obtain res fx where run: "request rt c endpoint options remote = (res, fx)"
    by (cases "request rt c endpoint options remote")
  have not_after: "res \<noteq> Thrown AfterLoop e" for e
    using run attempt_loop_not_after [OF assms(1), of 0] assms(2)
    by (auto simp: request_def Let_def)
  have A: "(\<exists>v fx. request rt c endpoint options remote = (Returned v, fx))
          \<or> (\<exists>e fx. request rt c endpoint options remote = (Thrown InLoop e, fx))"
  proof (cases res)
    case (Returned v)
    with run show ?thesis by simp
  next
    case (Thrown site e)
    with not_after have "site = InLoop" by (cases site) auto
    with run Thrown show ?thesis by simp
  qed
  have B: "loop_body rt c call rtype remote (nat m) fx \<noteq> (Continue e, fx')" for call rtype fx e fx'
    using loop_body_Continue_lt [of rt c call rtype remote "nat m" fx e fx'] assms by auto
  from A B show ?thesis by blast
qed

theorem fallback_throw_unreachable_witness:
  "((\<exists>v fx. request sample_runtime sample_client ''/voices'' no_options
              (always (Rejected \<lparr> message = ''fetch failed'', error_status = None \<rparr>))
            = (Returned v, fx))
    \<or> (\<exists>e fx. request sample_runtime sample_client ''/voices'' no_options
              (always (Rejected \<lparr> message = ''fetch failed'', error_status = None \<rparr>))
            = (Thrown InLoop e, fx)))
   \<and> (\<forall>call rtype fx e fx'.
        loop_body sample_runtime sample_client call rtype
          (always (Rejected \<lparr> message = ''fetch failed'', error_status = None \<rparr>)) 3 fx
        \<noteq> (Continue e, fx'))"
  using fallback_throw_unreachable [where c = sample_client and m = 3 and rt = sample_runtime
      and endpoint = "''/voices''" and options = no_options
      and remote = "always (Rejected \<lparr> message = ''fetch failed'', error_status = None \<rparr>)"]
  by (simp add: sample_client_fields)

text \<open>
  \<^bold>\<open>C8\<close>: in a call of \<^verbatim>\<open>request\<close> with response type \<^verbatim>\<open>arraybuffer\<close>, if any of the
  \<^verbatim>\<open>fetch\<close> calls made is answered with a 2xx response, that call is the last one and
  the value returned is the byte sequence of that response's body, as it is. This holds
  for every runtime, also one whose \<^verbatim>\<open>JSON.parse\<close> rejects every text: the bytes are
  neither read as text nor parsed.
\<close>

theorem arraybuffer_passthrough:
  assumes "responseType options = Some arraybuffer"
  shows "case request rt c endpoint options remote of
           (res, fx) \<Rightarrow>
             \<forall>i r. i < length (fetched fx) \<and> remote i = Resolved r \<and> ok r \<longrightarrow>
                   res = Returned (ArrayBuffer (content r)) \<and> length (fetched fx) = Suc i"
proof -
  obtain res fx where run: "request rt c endpoint options remote = (res, fx)"
    by (cases "request rt c endpoint options remote")
  then obtain call where loop: "attempt_loop rt c call arraybuffer remote 0 None no_effects = (res, fx)"
    by (simp add: request_def Let_def assms)
  have "res = Returned (ArrayBuffer (content r)) \<and> length (fetched fx) = Suc i"
    if "i < length (fetched fx)" "remote i = Resolved r" "ok r" for i r
    using attempt_loop_received_bytes [OF loop _ _ that] by (simp add: no_effects_def)
  then show ?thesis by (simp add: run) blast
qed

theorem arraybuffer_passthrough_witness:
  "fst (request sample_runtime sample_client ''/text-to-speech/v1''
     (no_options\<lparr>method := Some POST, body := Some (JObj [(''text'', JStr ''hi'')]),
                  responseType := Some arraybuffer\<rparr>)
     (first_then 1 (respond 429 ''null'') (respond 200 [CHR 0xFF, CHR 0xFB, CHR 0x90, CHR 0x00])))
   = Returned (ArrayBuffer [CHR 0xFF, CHR 0xFB, CHR 0x90, CHR 0x00])"
proof -
  define opts where "opts = no_options\<lparr>method := Some POST,
      body := Some (JObj [(''text'', JStr ''hi'')]), responseType := Some arraybuffer\<rparr>"
  define remote where "remote = first_then 1 (respond 429 ''null'')
      (respond 200 [CHR 0xFF, CHR 0xFB, CHR 0x90, CHR 0x00])"
  define r where "r = \<lparr> status = 200, content = [CHR 0xFF, CHR 0xFB, CHR 0x90, CHR 0x00] \<rparr>"
  have len: "1 < length (fetched (snd (request sample_runtime sample_client ''/text-to-speech/v1''
      opts remote)))"
    by (simp add: opts_def remote_def run_simps)
  have rt: "responseType opts = Some arraybuffer" by (simp add: opts_def)
  have r1: "remote 1 = Resolved r" and okr: "ok r"
    by (simp_all add: remote_def first_then_def respond_def r_def ok_def)
  have "\<forall>i r. i < length (fetched (snd (request sample_runtime sample_client
            ''/text-to-speech/v1'' opts remote))) \<and> remote i = Resolved r \<and> ok r \<longrightarrow>
          fst (request sample_runtime sample_client ''/text-to-speech/v1'' opts remote)
            = Returned (ArrayBuffer (content r))
          \<and> length (fetched (snd (request sample_runtime sample_client
            ''/text-to-speech/v1'' opts remote))) = Suc i"
    using arraybuffer_passthrough [OF rt, where rt = sample_runtime and c = sample_client
      and endpoint = "''/text-to-speech/v1''" and remote = remote]
    by (simp only: split_beta)
  from this [rule_format, of 1 r] len r1 okr
  have "fst (request sample_runtime sample_client ''/text-to-speech/v1'' opts remote)
            = Returned (ArrayBuffer (content r))"
    by blast
  then show ?thesis
    by (simp only: opts_def remote_def r_def response.simps)
qed

section \<open>The headers of a request\<close>

text \<open>
  \<^bold>\<open>C4\<close> says that the \<^verbatim>\<open>xi-api-key\<close> header of every attempt is the configured key,
  whatever headers the caller passes. The source spreads the caller's headers over the
  default (\<^verbatim>\<open>{ 'xi-api-key': this.apiKey, ...headers }\<close>), so a caller's entry for that
  name wins: with the key \<^verbatim>\<open>secret\<close> configured and \<^verbatim>\<open>other\<close> passed, \<^verbatim>\<open>other\<close> is sent.
\<close>

theorem api_key_override_counterexample:
  "apiKey sample_client = ''secret''
   \<and> length (fetched (snd (request sample_runtime sample_client ''/voices''
           (no_options\<lparr>headers := Some [''xi-api-key'' \<mapsto> ''other'']\<rparr>)
           (always (respond 200 ''{}''))))) = 1
   \<and> req_headers (fetched (snd (request sample_runtime sample_client ''/voices''
           (no_options\<lparr>headers := Some [''xi-api-key'' \<mapsto> ''other'']\<rparr>)
           (always (respond 200 ''{}'')))) ! 0) ''xi-api-key'' = Some ''other''"
  by (simp add: run_simps requestHeaders_def)

text \<open>
  \<^bold>\<open>C4\<close>, as the code has it: in every \<^verbatim>\<open>fetch\<close> call that \<^verbatim>\<open>request\<close> issues, the
  \<^verbatim>\<open>xi-api-key\<close> header is the configured key when the caller's headers have no entry of
  that name, and the caller's entry otherwise.
\<close>

theorem api_key_header_sent:
  "\<forall>q \<in> set (fetched (snd (request rt c endpoint options remote))).
      req_headers q ''xi-api-key'' =
        (case headers options of
           None \<Rightarrow> Some (apiKey c)
         | Some h \<Rightarrow> (case h ''xi-api-key'' of None \<Rightarrow> Some (apiKey c) | Some v \<Rightarrow> Some v))"
  by (auto simp: request_fetched requestHeaders_def Let_def map_add_def
           split: option.splits)

theorem api_key_header_sent_witness:
  "case request sample_runtime sample_client ''/voices''
          (no_options\<lparr>headers := Some [''Accept'' \<mapsto> ''application/json'']\<rparr>)
          (always (respond 200 ''{}'')) of
     (res, fx) \<Rightarrow> fetched fx \<noteq> [] \<and>
                  (\<forall>q \<in> set (fetched fx). req_headers q ''xi-api-key'' = Some ''secret'')"
proof -
  have ne: "fetched (snd (request sample_runtime sample_client ''/voices''
          (no_options\<lparr>headers := Some [''Accept'' \<mapsto> ''application/json'']\<rparr>)
          (always (respond 200 ''{}'')))) \<noteq> []"
    by (simp add: run_simps)
  show ?thesis
    using ne api_key_header_sent [of sample_runtime sample_client "''/voices''"
        "no_options\<lparr>headers := Some [''Accept'' \<mapsto> ''application/json'']\<rparr>"
        "always (respond 200 ''{}'')"]
    by (simp add: split_beta sample_client_fields no_options_def)
qed

text \<open>
  \<^bold>\<open>C6\<close> says that a \<^verbatim>\<open>Content-Type\<close> header of the caller is never replaced by the
  default. The guard of the source is \<^verbatim>\<open>body && !requestHeaders['Content-Type']\<close>, a test
  of truthiness: a caller's \<^verbatim>\<open>Content-Type\<close> that is the empty string counts as missing
  and is replaced by \<^verbatim>\<open>application/json\<close>.
\<close>

theorem content_type_replaced_counterexample:
  "length (fetched (snd (request sample_runtime sample_client ''/text-to-speech/v1''
          (no_options\<lparr>method := Some POST, body := Some (JObj [(''text'', JStr ''hi'')]),
                       headers := Some [''Content-Type'' \<mapsto> []]\<rparr>)
          (always (respond 200 ''{}''))))) = 1
   \<and> req_headers (fetched (snd (request sample_runtime sample_client ''/text-to-speech/v1''
          (no_options\<lparr>method := Some POST, body := Some (JObj [(''text'', JStr ''hi'')]),
                       headers := Some [''Content-Type'' \<mapsto> []]\<rparr>)
          (always (respond 200 ''{}'')))) ! 0) ''Content-Type'' = Some ''application/json''"
  by (simp add: run_simps requestHeaders_def)

text \<open>
  \<^bold>\<open>C6\<close>, as the code has it: in every \<^verbatim>\<open>fetch\<close> call that \<^verbatim>\<open>request\<close> issues, the
  \<^verbatim>\<open>Content-Type\<close> header is \<^verbatim>\<open>application/json\<close> exactly when the body is truthy (present,
  and not \<^verbatim>\<open>null\<close>, \<^verbatim>\<open>false\<close>, \<^verbatim>\<open>0\<close> or the empty string) and the caller passed no
  \<^verbatim>\<open>Content-Type\<close> or an empty one; in every other case it is what the caller passed, so
  a non-empty \<^verbatim>\<open>Content-Type\<close> of the caller is never replaced.
\<close>

theorem content_type_header_sent:
  "\<forall>q \<in> set (fetched (snd (request rt c endpoint options remote))).
      req_headers q ''Content-Type'' =
        (let supplied = (case headers options of None \<Rightarrow> None | Some h \<Rightarrow> h ''Content-Type'')
         in if (case body options of None \<Rightarrow> False | Some b \<Rightarrow> truthy b)
               \<and> (supplied = None \<or> supplied = Some [])
            then Some ''application/json''
            else supplied)"
  by (auto simp: request_fetched requestHeaders_def Let_def map_add_def
           split: option.splits)

theorem content_type_header_sent_witness:
  "case request sample_runtime sample_client ''/text-to-speech/v1''
          (no_options\<lparr>method := Some POST, body := Some (JObj [(''text'', JStr ''hi'')]),
                       headers := Some [''Content-Type'' \<mapsto> ''text/plain'']\<rparr>)
          (always (respond 200 ''{}'')) of
     (res, fx) \<Rightarrow> fetched fx \<noteq> [] \<and>
                  (\<forall>q \<in> set (fetched fx). req_headers q ''Content-Type'' = Some ''text/plain'')"
proof -
  have ne: "fetched (snd (request sample_runtime sample_client ''/text-to-speech/v1''
          (no_options\<lparr>method := Some POST, body := Some (JObj [(''text'', JStr ''hi'')]),
                       headers := Some [''Content-Type'' \<mapsto> ''text/plain'']\<rparr>)
          (always (respond 200 ''{}'')))) \<noteq> []"
    by (simp add: run_simps)
  show ?thesis
    using ne content_type_header_sent [of sample_runtime sample_client "''/text-to-speech/v1''"
        "no_options\<lparr>method := Some POST, body := Some (JObj [(''text'', JStr ''hi'')]),
                       headers := Some [''Content-Type'' \<mapsto> ''text/plain'']\<rparr>"
        "always (respond 200 ''{}'')"]
    by (simp add: split_beta no_options_def)
qed

section \<open>The singleton\<close>

text \<open>
  \<^bold>\<open>C7\<close>: while no instance exists, \<^verbatim>\<open>getClient\<close> fails exactly when the variable
  \<^verbatim>\<open>ELEVENLABS_API_KEY\<close> is unset or empty. It fails with the error that names the missing
  variable, allocates nothing and leaves \<^verbatim>\<open>clientInstance\<close> empty, so no client exists on
  which a request could be issued; and whenever it hands out an instance, that instance
  holds the non-empty key of the environment. The check is made by \<^verbatim>\<open>getClient\<close>, before
  the constructor runs.
\<close>

theorem getClient_credential_check:
  assumes "clientInstance st = None"
  shows "((\<exists>err st'. getClient e st = (Inl err, st')) \<longleftrightarrow>
            (e ''ELEVENLABS_API_KEY'' = None \<or> e ''ELEVENLABS_API_KEY'' = Some []))
       \<and> (\<forall>err st'. getClient e st = (Inl err, st') \<longrightarrow> err = missing_key_error \<and> st' = st)
       \<and> (\<forall>ref st'. getClient e st = (Inr ref, st') \<longrightarrow>
             clientInstance st' = Some ref \<and> ref < length (heap st') \<and>
             apiKey (heap st' ! ref) \<noteq> [] \<and>
             e ''ELEVENLABS_API_KEY'' = Some (apiKey (heap st' ! ref)))"
  using assms
  by (auto simp: getClient_def Let_def new_ElevenLabsClient_def split: option.splits if_splits)

theorem getClient_credential_check_witness:
  "getClient Map.empty initial_state = (Inl missing_key_error, initial_state)
   \<and> (\<exists>st'. getClient [''ELEVENLABS_API_KEY'' \<mapsto> ''sk_test''] initial_state = (Inr 0, st')
            \<and> apiKey (heap st' ! 0) = ''sk_test'')"
proof -
  have none: "clientInstance initial_state = None" by (simp add: initial_state_def)
  have A: "getClient Map.empty initial_state = (Inl missing_key_error, initial_state)"
    using getClient_credential_check [OF none, of Map.empty]
    by (cases "getClient Map.empty initial_state") auto
  obtain r st' where g: "getClient [''ELEVENLABS_API_KEY'' \<mapsto> ''sk_test''] initial_state = (r, st')"
    by (cases "getClient [''ELEVENLABS_API_KEY'' \<mapsto> ''sk_test''] initial_state")
  have B: "r = Inr 0 \<and> apiKey (heap st' ! 0) = ''sk_test''"
    using getClient_credential_check [OF none, of "[''ELEVENLABS_API_KEY'' \<mapsto> ''sk_test'']"] g
    by (cases r) (auto simp: initial_state_def getClient_def Let_def)
  from A B g show ?thesis by simp
qed

text \<open>
  \<^bold>\<open>C9\<close>: starting without an instance and with a key in the environment, the first
  \<^verbatim>\<open>getClient\<close> allocates one client, built from the environment of that moment, and
  stores it. Every later series of calls, whatever the environment has become, returns
  the same reference and changes nothing. \<^verbatim>\<open>getClient\<close> runs without suspension, so calls
  made by concurrent tasks are such a series. After \<^verbatim>\<open>resetClient\<close>, the next call
  allocates a new client, different from the first, built from the environment it then
  finds; the first object is untouched.
\<close>

theorem singleton_identity:
  assumes "clientInstance st = None"
    and "e1 ''ELEVENLABS_API_KEY'' = Some key1" and "key1 \<noteq> []"
    and "e2 ''ELEVENLABS_API_KEY'' = Some key2" and "key2 \<noteq> []"
  shows "case getClient e1 st of
           (r1, st1) \<Rightarrow>
             r1 = Inr (length (heap st)) \<and>
             heap st1 ! length (heap st) =
               \<lparr> apiKey = key1,
                 maxRetries = parseInt (env_or e1 ''MAX_RETRIES'' ''3''),
                 retryDelayMs = parseInt (env_or e1 ''RETRY_DELAY_MS'' ''1000'') \<rparr> \<and>
             (\<forall>es. getClient_calls es st1 = (replicate (length es) r1, st1)) \<and>
             (case getClient e2 (resetClient st1) of
                (r2, st2) \<Rightarrow>
                  r2 = Inr (length (heap st1)) \<and> r2 \<noteq> r1 \<and>
                  heap st2 ! length (heap st1) =
                    \<lparr> apiKey = key2,
                      maxRetries = parseInt (env_or e2 ''MAX_RETRIES'' ''3''),
                      retryDelayMs = parseInt (env_or e2 ''RETRY_DELAY_MS'' ''1000'') \<rparr> \<and>
                  heap st2 ! length (heap st) = heap st1 ! length (heap st) \<and>
                  (\<forall>es. getClient_calls es st2 = (replicate (length es) r2, st2)))"
proof -
  define obj1 where "obj1 = \<lparr> apiKey = key1,
                 maxRetries = parseInt (env_or e1 ''MAX_RETRIES'' ''3''),
                 retryDelayMs = parseInt (env_or e1 ''RETRY_DELAY_MS'' ''1000'') \<rparr>"
  define obj2 where "obj2 = \<lparr> apiKey = key2,
                 maxRetries = parseInt (env_or e2 ''MAX_RETRIES'' ''3''),
                 retryDelayMs = parseInt (env_or e2 ''RETRY_DELAY_MS'' ''1000'') \<rparr>"
  define st1 where "st1 = st\<lparr>heap := heap st @ [obj1], clientInstance := Some (length (heap st))\<rparr>"
  define st2 where "st2 = st1\<lparr>heap := heap st1 @ [obj2], clientInstance := Some (length (heap st1))\<rparr>"
  have g1: "getClient e1 st = (Inr (length (heap st)), st1)"
    using assms(1,2,3)
    by (simp add: getClient_def Let_def new_ElevenLabsClient_def st1_def obj1_def)
  have g2: "getClient e2 (resetClient st1) = (Inr (length (heap st1)), st2)"
    using assms(4,5)
    by (simp add: getClient_def resetClient_def Let_def new_ElevenLabsClient_def st2_def obj2_def
          st1_def)
  have s1: "getClient_calls es st1 = (replicate (length es) (Inr (length (heap st))), st1)" for es
    by (rule getClient_calls_same) (simp add: st1_def)
  have s2: "getClient_calls es st2 = (replicate (length es) (Inr (length (heap st1))), st2)" for es
    by (rule getClient_calls_same) (simp add: st2_def)
  have h1: "heap st1 ! length (heap st) = obj1" and l1: "length (heap st1) = Suc (length (heap st))"
    by (simp_all add: st1_def)
  have h2: "heap st2 ! Suc (length (heap st)) = obj2" "heap st2 ! length (heap st) = obj1"
    by (simp_all add: st2_def st1_def nth_append)
  show ?thesis
    by (simp only: g1 g2 prod.case)
       (simp add: s1 s2 h1 h2 l1 obj1_def [symmetric] obj2_def [symmetric])
qed

theorem singleton_identity_witness:
  "case getClient [''ELEVENLABS_API_KEY'' \<mapsto> ''first''] initial_state of
     (r1, st1) \<Rightarrow>
       r1 = Inr 0 \<and>
       heap st1 ! 0 = \<lparr> apiKey = ''first'', maxRetries = Integer 3, retryDelayMs = Integer 1000 \<rparr> \<and>
       getClient_calls [Map.empty, [''ELEVENLABS_API_KEY'' \<mapsto> ''changed'']] st1
         = ([Inr 0, Inr 0], st1) \<and>
       (case getClient [''ELEVENLABS_API_KEY'' \<mapsto> ''second'', ''MAX_RETRIES'' \<mapsto> ''5'']
               (resetClient st1) of
          (r2, st2) \<Rightarrow>
            r2 = Inr 1 \<and>
            heap st2 ! 1 = \<lparr> apiKey = ''second'', maxRetries = Integer 5,
                              retryDelayMs = Integer 1000 \<rparr>)"
proof -
  have p3: "parseInt ''3'' = Integer 3" and p5: "parseInt ''5'' = Integer 5"
    and p1000: "parseInt ''1000'' = Integer 1000"
    by (simp_all add: parseInt_def is_space_def is_digit_def digits_val_def digit_val_def Let_def)
  show ?thesis
    using singleton_identity [where st = initial_state
        and ?e1.0 = "[''ELEVENLABS_API_KEY'' \<mapsto> ''first'']" and ?key1.0 = "''first''"
        and ?e2.0 = "[''ELEVENLABS_API_KEY'' \<mapsto> ''second'', ''MAX_RETRIES'' \<mapsto> ''5'']"
        and ?key2.0 = "''second''"]
    by (simp add: initial_state_def split_beta env_or_def p3 p5 p1000 getClient_def Let_def
          new_ElevenLabsClient_def resetClient_def)
qed

end
